theory Spec2Isabelle
  imports Main "HOL-Library.Word"
begin

section \<open>Python values the module works with\<close>

text \<open>
  The module \<^verbatim>\<open>archivebox/api/models.py\<close> declares two Django models, \<^verbatim>\<open>APIToken\<close>
  and \<^verbatim>\<open>OutboundWebhook\<close>. Its own logic is small; what it computes rests on a few
  Python library values (datetimes, UUIDs, random bytes), which are modelled first.
  Every exception the code can raise is a value of \<open>py_error\<close>, and a computation that
  can raise returns \<open>py_error + 'a\<close> with \<open>Inl\<close> for the exception.
\<close>

datatype py_error =
    AttributeError string string
  | OverflowError
  | IntegrityError string
  | ResolutionError string

subsection \<open>Datetimes\<close>

text \<open>
  \<^verbatim>\<open>django.utils.timezone.now()\<close> returns a timezone-aware datetime in UTC, and the
  \<^verbatim>\<open>DateTimeField\<close>s hold such values. An aware UTC datetime is a point of the proleptic
  Gregorian time line with microsecond resolution; it is represented by the number of
  microseconds since 0001-01-01T00:00:00 (Python's ordinal day 1). Python orders aware
  datetimes along that line, so \<^verbatim>\<open>a < b\<close> is \<open><\<close> on the counts. Python's datetimes stop
  with the year 9999 (\<open>MAXORDINAL\<close> days); arithmetic that leaves the range raises
  \<^verbatim>\<open>OverflowError\<close>. A \<^verbatim>\<open>timedelta\<close> is a signed number of microseconds.
\<close>

type_synonym datetime = int
type_synonym timedelta = int

definition US_PER_SECOND :: int where
  "US_PER_SECOND = 1000000"

definition US_PER_DAY :: int where
  "US_PER_DAY = 86400 * 1000000"

definition MAXORDINAL :: int where
  "MAXORDINAL = 3652059"

definition timedelta_days :: "int \<Rightarrow> timedelta" where
  \<comment> \<open>\<^verbatim>\<open>timedelta(days=n)\<close>\<close>
  "timedelta_days n = n * US_PER_DAY"

definition datetime_in_range :: "datetime \<Rightarrow> bool" where
  "datetime_in_range t = (0 \<le> t \<and> t < MAXORDINAL * US_PER_DAY)"

definition datetime_add :: "datetime \<Rightarrow> timedelta \<Rightarrow> py_error + datetime" where
  \<comment> \<open>\<^verbatim>\<open>datetime.__add__\<close>: the sum, or OverflowError when its ordinal day is not in
      \<open>1..MAXORDINAL\<close>\<close>
  "datetime_add t d =
     (if datetime_in_range (t + d) then Inr (t + d) else Inl OverflowError)"

subsection \<open>The calendar, as Python's datetime module computes it\<close>

definition is_leap :: "int \<Rightarrow> bool" where
  "is_leap year = (year mod 4 = 0 \<and> (year mod 100 \<noteq> 0 \<or> year mod 400 = 0))"

definition days_before_year :: "int \<Rightarrow> int" where
  "days_before_year year =
     (let y = year - 1 in y * 365 + y div 4 - y div 100 + y div 400)"

definition DAYS_IN_MONTH :: "int list" where
  "DAYS_IN_MONTH = [-1, 31, 28, 31, 30, 31, 30, 31, 31, 30, 31, 30, 31]"

definition DAYS_BEFORE_MONTH :: "int list" where
  "DAYS_BEFORE_MONTH = [-1, 0, 31, 59, 90, 120, 151, 181, 212, 243, 273, 304, 334]"

definition days_in_month :: "int \<Rightarrow> int \<Rightarrow> int" where
  "days_in_month year month =
     (if month = 2 \<and> is_leap year then 29 else DAYS_IN_MONTH ! nat month)"

definition days_before_month :: "int \<Rightarrow> int \<Rightarrow> int" where
  "days_before_month year month =
     DAYS_BEFORE_MONTH ! nat month + (if month > 2 \<and> is_leap year then 1 else 0)"

definition ymd2ord :: "int \<Rightarrow> int \<Rightarrow> int \<Rightarrow> int" where
  "ymd2ord year month day = days_before_year year + days_before_month year month + day"

definition ord2ymd :: "int \<Rightarrow> int \<times> int \<times> int" where
  "ord2ymd n0 =
     (let n = n0 - 1;
          n400 = n div 146097; n = n mod 146097;
          year = n400 * 400 + 1;
          n100 = n div 36524; n = n mod 36524;
          n4 = n div 1461; n = n mod 1461;
          n1 = n div 365; n = n mod 365;
          year = year + n100 * 100 + n4 * 4 + n1
      in if n1 = 4 \<or> n100 = 4 then (year - 1, 12, 31)
         else
           let leapyear = (n1 = 3 \<and> (n4 \<noteq> 24 \<or> n100 = 3));
               month = (n + 50) div 32;
               preceding = DAYS_BEFORE_MONTH ! nat month
                             + (if month > 2 \<and> leapyear then 1 else 0)
           in if preceding > n
              then
                let month = month - 1;
                    preceding = preceding
                      - (DAYS_IN_MONTH ! nat month + (if month = 2 \<and> leapyear then 1 else 0))
                in (year, month, n - preceding + 1)
              else (year, month, n - preceding + 1))"

text \<open>
  The last step of \<open>ord2ymd\<close>, the month and day of the \<open>n\<close>-th day of a year
  (counted from 0), stated on its own; \<open>ord2ymd_unfold\<close> below shows that \<open>ord2ymd\<close>
  is this step after the division into 400-, 100-, 4- and 1-year cycles.
\<close>

definition ymd_in_year :: "int \<Rightarrow> bool \<Rightarrow> int \<Rightarrow> int \<times> int \<times> int" where
  "ymd_in_year year leapyear n =
     (let month = (n + 50) div 32;
          preceding = DAYS_BEFORE_MONTH ! nat month + (if month > 2 \<and> leapyear then 1 else 0)
      in if preceding > n
         then
           let month = month - 1;
               preceding = preceding
                 - (DAYS_IN_MONTH ! nat month + (if month = 2 \<and> leapyear then 1 else 0))
           in (year, month, n - preceding + 1)
         else (year, month, n - preceding + 1))"

subsection \<open>Rendering numbers and datetimes\<close>

definition digit_char :: "nat \<Rightarrow> char" where
  \<comment> \<open>the digit of a value below 16, lower case as \<^verbatim>\<open>%x\<close> and \<^verbatim>\<open>hexlify\<close> print it\<close>
  "digit_char d = ''0123456789abcdef'' ! d"

function dec_digits :: "int \<Rightarrow> string" where
  \<comment> \<open>the decimal digits of a non-negative Python int\<close>
  "dec_digits i =
     (if i < 10 then [digit_char (nat i)]
      else dec_digits (i div 10) @ [digit_char (nat (i mod 10))])"
  by pat_completeness auto
termination
  by (relation "measure nat") auto

declare dec_digits.simps [simp del]

definition str_int :: "int \<Rightarrow> string" where
  \<comment> \<open>\<^verbatim>\<open>str(i)\<close> of a Python int\<close>
  "str_int i = (if i < 0 then CHR ''-'' # dec_digits (- i) else dec_digits i)"

definition zfill :: "nat \<Rightarrow> string \<Rightarrow> string" where
  "zfill w s = replicate (w - length s) (CHR ''0'') @ s"

definition fmt_d :: "nat \<Rightarrow> int \<Rightarrow> string" where
  \<comment> \<open>\<^verbatim>\<open>'%0wd' % i\<close> for a non-negative \<open>i\<close>\<close>
  "fmt_d w i = zfill w (dec_digits i)"

definition datetime_isoformat :: "char \<Rightarrow> datetime \<Rightarrow> string" where
  \<comment> \<open>\<^verbatim>\<open>datetime.isoformat(sep)\<close> of an aware UTC datetime: the date, the separator, the
      time, the microseconds when they are not zero, and the offset \<^verbatim>\<open>+00:00\<close>\<close>
  "datetime_isoformat sep t =
     (let (year, month, day) = ord2ymd (t div US_PER_DAY + 1);
          r = t mod US_PER_DAY;
          hour = r div 3600000000;
          minute = r mod 3600000000 div 60000000;
          second = r mod 60000000 div 1000000;
          us = r mod 1000000
      in fmt_d 4 year @ ''-'' @ fmt_d 2 month @ ''-'' @ fmt_d 2 day @ [sep]
         @ fmt_d 2 hour @ '':'' @ fmt_d 2 minute @ '':'' @ fmt_d 2 second
         @ (if us \<noteq> 0 then ''.'' @ fmt_d 6 us else [])
         @ ''+00:00'')"

definition isoformat :: "datetime \<Rightarrow> string" where
  \<comment> \<open>\<^verbatim>\<open>t.isoformat()\<close>: the separator defaults to \<^verbatim>\<open>T\<close>\<close>
  "isoformat t = datetime_isoformat (CHR ''T'') t"

definition str_datetime :: "datetime \<Rightarrow> string" where
  \<comment> \<open>\<^verbatim>\<open>str(t)\<close> is \<^verbatim>\<open>t.isoformat(sep=' ')\<close>\<close>
  "str_datetime t = datetime_isoformat (CHR '' '') t"

section \<open>The credential: APIToken\<close>

type_synonym uuid = "128 word"

record User =
  pk :: int
  username :: string

record APIToken =
  id :: uuid
  uuid :: "uuid option"
  abid :: "string option"
  created_by :: User
  token :: string
  created :: datetime
  expires :: "datetime option"

text \<open>
  The record is a persisted row of the model: \<^verbatim>\<open>id\<close> is the primary key, \<^verbatim>\<open>created_by\<close>,
  \<^verbatim>\<open>token\<close> and \<^verbatim>\<open>created\<close> are not nullable (\<^verbatim>\<open>created\<close> is set by \<^verbatim>\<open>auto_now_add\<close>), and
  \<^verbatim>\<open>uuid\<close>, \<^verbatim>\<open>abid\<close> and \<^verbatim>\<open>expires\<close> may be null.
\<close>

definition is_valid :: "datetime \<Rightarrow> APIToken \<Rightarrow> datetime option \<Rightarrow> bool" where
  \<comment> \<open>\<^verbatim>\<open>APIToken.is_valid(self, for_date=None)\<close>; the first argument is the reading of
      the clock, \<^verbatim>\<open>timezone.now()\<close>. A datetime is always truthy, so \<^verbatim>\<open>x or y\<close> and
      \<^verbatim>\<open>x and y\<close> test \<open>x\<close> for None only.\<close>
  "is_valid now self for_date =
     (let for_date = (case for_date of Some d \<Rightarrow> d | None \<Rightarrow> now)
      in if (case expires self of Some e \<Rightarrow> e < for_date | None \<Rightarrow> False)
         then False
         else True)"

text \<open>
  \<^verbatim>\<open>expires_as_iso8601\<close> is a property; it reads the clock only when no expiry is stored
  (\<^verbatim>\<open>or\<close> evaluates its right operand only then), and the sum may raise.
\<close>

definition expires_as_iso8601 :: "datetime \<Rightarrow> APIToken \<Rightarrow> py_error + string" where
  "expires_as_iso8601 now self =
     (case (case expires self of
              Some e \<Rightarrow> Inr e
            | None \<Rightarrow> datetime_add now (timedelta_days (365 * 100))) of
        Inl err \<Rightarrow> Inl err
      | Inr expiry_date \<Rightarrow> Inr (isoformat expiry_date))"

subsection \<open>Token generation\<close>

text \<open>
  \<^verbatim>\<open>secrets.token_hex(n)\<close> is \<^verbatim>\<open>hexlify(token_bytes(n))\<close>, and \<^verbatim>\<open>token_bytes(n)\<close> reads
  \<open>n\<close> bytes from the operating system's generator. The generator is a parameter: the
  sequence of bytes it will deliver.
\<close>

type_synonym byte = "8 word"
type_synonym entropy = "nat \<Rightarrow> byte"

definition token_bytes :: "entropy \<Rightarrow> nat \<Rightarrow> byte list" where
  "token_bytes rnd n = map rnd [0..<n]"

definition hexlify :: "byte list \<Rightarrow> string" where
  "hexlify bs = concat (map (\<lambda>b. [digit_char (unat b div 16), digit_char (unat b mod 16)]) bs)"

definition token_hex :: "entropy \<Rightarrow> nat \<Rightarrow> string" where
  "token_hex rnd n = hexlify (token_bytes rnd n)"

definition generate_secret_token :: "entropy \<Rightarrow> string" where
  "generate_secret_token rnd = token_hex rnd 16"

definition hex_alphabet :: "char set" where
  "hex_alphabet = set ''0123456789abcdef''"

subsection \<open>Rendering a UUID\<close>

function hex_digits :: "int \<Rightarrow> string" where
  \<comment> \<open>the hexadecimal digits of a non-negative Python int, as \<^verbatim>\<open>'%x'\<close> prints them\<close>
  "hex_digits i =
     (if i < 16 then [digit_char (nat i)]
      else hex_digits (i div 16) @ [digit_char (nat (i mod 16))])"
  by pat_completeness auto
termination
  by (relation "measure nat") auto

declare hex_digits.simps [simp del]

definition str_uuid :: "uuid \<Rightarrow> string" where
  \<comment> \<open>\<^verbatim>\<open>str(u)\<close>: the 32 hex digits of \<^verbatim>\<open>'%032x' % u.int\<close> in groups of 8, 4, 4, 4 and 12\<close>
  "str_uuid u =
     (let hex = zfill 32 (hex_digits (uint u))
      in take 8 hex @ ''-'' @ take 4 (drop 8 hex) @ ''-'' @ take 4 (drop 12 hex) @ ''-''
         @ take 4 (drop 16 hex) @ ''-'' @ drop 20 hex)"

section \<open>The webhook registration: OutboundWebhook\<close>

text \<open>
  \<^verbatim>\<open>OutboundWebhook\<close> declares \<^verbatim>\<open>id\<close>, \<^verbatim>\<open>uuid\<close> and \<^verbatim>\<open>abid\<close> itself. Here \<^verbatim>\<open>uuid\<close> is the
  primary key and \<^verbatim>\<open>id\<close> is the nullable field without a default: the reverse of
  \<^verbatim>\<open>APIToken\<close>. The fields \<^verbatim>\<open>name\<close>, \<^verbatim>\<open>signal\<close>, \<^verbatim>\<open>ref\<close>, \<^verbatim>\<open>endpoint\<close> (whose help texts the
  module sets) and \<^verbatim>\<open>created\<close> (which \<^verbatim>\<open>abid_ts_src\<close> reads) come from its base classes.
\<close>

record OutboundWebhook =
  id :: "uuid option"
  uuid :: uuid
  abid :: "string option"
  name :: string
  signal :: string
  ref :: string
  endpoint :: string
  created :: datetime

section \<open>The ABID declarations\<close>

datatype model_class = APIToken_class | OutboundWebhook_class

fun abid_prefix :: "model_class \<Rightarrow> string" where
  "abid_prefix APIToken_class = ''apt_''"
| "abid_prefix OutboundWebhook_class = ''whk_''"

fun abid_ts_src :: "model_class \<Rightarrow> string" where
  "abid_ts_src APIToken_class = ''self.created''"
| "abid_ts_src OutboundWebhook_class = ''self.created''"

fun abid_uri_src :: "model_class \<Rightarrow> string" where
  "abid_uri_src APIToken_class = ''self.token''"
| "abid_uri_src OutboundWebhook_class = ''self.endpoint''"

fun abid_subtype_src :: "model_class \<Rightarrow> string" where
  "abid_subtype_src APIToken_class = ''self.created_by_id''"
| "abid_subtype_src OutboundWebhook_class = ''self.ref''"

fun abid_rand_src :: "model_class \<Rightarrow> string" where
  "abid_rand_src APIToken_class = ''self.id''"
| "abid_rand_src OutboundWebhook_class = ''self.id''"

section \<open>Attribute access\<close>

text \<open>
  A Python value that an attribute of the two models can hold, the models' instances
  included. \<open>getattr\<close> is Python's attribute lookup on an instance: the class constants
  and fields the class body declares, \<^verbatim>\<open>pk\<close> (Django's alias of the primary key field)
  and \<^verbatim>\<open>created_by_id\<close> (the column behind the foreign key \<^verbatim>\<open>created_by\<close>). The methods
  and properties of \<^verbatim>\<open>APIToken\<close> (\<^verbatim>\<open>__str__\<close>, \<^verbatim>\<open>__repr__\<close>, \<^verbatim>\<open>__json__\<close>, \<^verbatim>\<open>ulid\<close>,
  \<^verbatim>\<open>expires_as_iso8601\<close>, \<^verbatim>\<open>is_valid\<close>) are functions of their own below. Any other name
  raises \<^verbatim>\<open>AttributeError\<close>.
\<close>

datatype pyval =
    PNone
  | PStr string
  | PInt int
  | PUUID uuid
  | PDatetime datetime
  | PUser User
  | PAPIToken APIToken
  | POutboundWebhook OutboundWebhook

definition nullable :: "('a \<Rightarrow> pyval) \<Rightarrow> 'a option \<Rightarrow> pyval" where
  "nullable f v = (case v of None \<Rightarrow> PNone | Some x \<Rightarrow> f x)"

definition User_attrs :: "User \<Rightarrow> (string \<times> pyval) list" where
  "User_attrs u = [(''pk'', PInt (pk u)), (''id'', PInt (pk u)), (''username'', PStr (username u))]"

definition APIToken_attrs :: "APIToken \<Rightarrow> (string \<times> pyval) list" where
  "APIToken_attrs self =
     [(''abid_prefix'', PStr (abid_prefix APIToken_class)),
      (''abid_ts_src'', PStr (abid_ts_src APIToken_class)),
      (''abid_uri_src'', PStr (abid_uri_src APIToken_class)),
      (''abid_subtype_src'', PStr (abid_subtype_src APIToken_class)),
      (''abid_rand_src'', PStr (abid_rand_src APIToken_class)),
      (''id'', PUUID (APIToken.id self)),
      (''pk'', PUUID (APIToken.id self)),
      (''uuid'', nullable PUUID (APIToken.uuid self)),
      (''abid'', nullable PStr (APIToken.abid self)),
      (''created_by'', PUser (created_by self)),
      (''created_by_id'', PInt (pk (created_by self))),
      (''token'', PStr (token self)),
      (''created'', PDatetime (APIToken.created self)),
      (''expires'', nullable PDatetime (expires self))]"

definition OutboundWebhook_attrs :: "OutboundWebhook \<Rightarrow> (string \<times> pyval) list" where
  "OutboundWebhook_attrs self =
     [(''abid_prefix'', PStr (abid_prefix OutboundWebhook_class)),
      (''abid_ts_src'', PStr (abid_ts_src OutboundWebhook_class)),
      (''abid_uri_src'', PStr (abid_uri_src OutboundWebhook_class)),
      (''abid_subtype_src'', PStr (abid_subtype_src OutboundWebhook_class)),
      (''abid_rand_src'', PStr (abid_rand_src OutboundWebhook_class)),
      (''id'', nullable PUUID (OutboundWebhook.id self)),
      (''uuid'', PUUID (OutboundWebhook.uuid self)),
      (''pk'', PUUID (OutboundWebhook.uuid self)),
      (''abid'', nullable PStr (OutboundWebhook.abid self)),
      (''name'', PStr (name self)),
      (''signal'', PStr (signal self)),
      (''ref'', PStr (ref self)),
      (''endpoint'', PStr (endpoint self)),
      (''created'', PDatetime (OutboundWebhook.created self))]"

fun type_name :: "pyval \<Rightarrow> string" where
  "type_name PNone = ''NoneType''"
| "type_name (PStr _) = ''str''"
| "type_name (PInt _) = ''int''"
| "type_name (PUUID _) = ''UUID''"
| "type_name (PDatetime _) = ''datetime''"
| "type_name (PUser _) = ''User''"
| "type_name (PAPIToken _) = ''APIToken''"
| "type_name (POutboundWebhook _) = ''OutboundWebhook''"

fun attrs :: "pyval \<Rightarrow> (string \<times> pyval) list" where
  "attrs (PUser u) = User_attrs u"
| "attrs (PAPIToken t) = APIToken_attrs t"
| "attrs (POutboundWebhook w) = OutboundWebhook_attrs w"
| "attrs _ = []"

definition getattr :: "pyval \<Rightarrow> string \<Rightarrow> py_error + pyval" where
  "getattr obj attr =
     (case map_of (attrs obj) attr of
        Some v \<Rightarrow> Inr v
      | None \<Rightarrow> Inl (AttributeError (type_name obj) attr))"

text \<open>
  A source specifier is a Python expression, a dotted attribute path that starts at
  \<^verbatim>\<open>self\<close>. \<open>eval_path\<close> evaluates it as Python does: attribute by attribute, an absent
  attribute raising \<^verbatim>\<open>AttributeError\<close>.
\<close>

fun split_on :: "char \<Rightarrow> string \<Rightarrow> string list" where
  "split_on c [] = [[]]"
| "split_on c (x # xs) =
     (if x = c then [] # split_on c xs
      else (case split_on c xs of
              [] \<Rightarrow> [[x]]
            | w # ws \<Rightarrow> (x # w) # ws))"

fun traverse :: "pyval \<Rightarrow> string list \<Rightarrow> py_error + pyval" where
  "traverse obj [] = Inr obj"
| "traverse obj (a # rest) =
     (case getattr obj a of Inl err \<Rightarrow> Inl err | Inr v \<Rightarrow> traverse v rest)"

definition eval_path :: "pyval \<Rightarrow> string \<Rightarrow> py_error + pyval" where
  "eval_path self src =
     (case split_on (CHR ''.'') src of
        [] \<Rightarrow> Inl (ResolutionError src)
      | root # path \<Rightarrow>
          if root = ''self'' then traverse self path else Inl (ResolutionError src))"

text \<open>
  Modelled from the spec: the AttributePathResolver, which belongs to the base class
  \<^verbatim>\<open>ABIDModel\<close> and is not part of this module. Section 4.1 of the specification: it
  returns the value found by traversing the path, or fails with a \<^verbatim>\<open>ResolutionError\<close>
  if any segment along the path is absent or null.
\<close>

fun resolve_from :: "string \<Rightarrow> pyval \<Rightarrow> string list \<Rightarrow> py_error + pyval" where
  "resolve_from src obj [] = Inr obj"
| "resolve_from src obj (a # rest) =
     (case getattr obj a of
        Inl err \<Rightarrow> Inl (ResolutionError src)
      | Inr v \<Rightarrow> if v = PNone then Inl (ResolutionError src) else resolve_from src v rest)"

definition resolve :: "pyval \<Rightarrow> string \<Rightarrow> py_error + pyval" where
  "resolve self src =
     (case split_on (CHR ''.'') src of
        [] \<Rightarrow> Inl (ResolutionError src)
      | root # path \<Rightarrow>
          if root = ''self'' then resolve_from src self path else Inl (ResolutionError src))"

section \<open>The credential's string forms and projection\<close>

definition APIToken_str :: "APIToken \<Rightarrow> string" where
  \<comment> \<open>\<^verbatim>\<open>APIToken.__str__\<close>\<close>
  "APIToken_str self = token self"

definition last4 :: "string \<Rightarrow> string" where
  \<comment> \<open>the slice \<^verbatim>\<open>s[-4:]\<close>: the last four characters, or all of a shorter string\<close>
  "last4 s = drop (length s - 4) s"

definition format_str :: "pyval \<Rightarrow> string" where
  \<comment> \<open>what an f-string field prints for a value: \<^verbatim>\<open>str(v)\<close>\<close>
  "format_str v =
     (case v of
        PNone \<Rightarrow> ''None''
      | PStr s \<Rightarrow> s
      | PInt i \<Rightarrow> str_int i
      | PUUID u \<Rightarrow> str_uuid u
      | PDatetime t \<Rightarrow> str_datetime t
      | PUser u \<Rightarrow> username u
      | PAPIToken t \<Rightarrow> APIToken_str t
      | POutboundWebhook w \<Rightarrow> name w)"

definition APIToken_repr :: "APIToken \<Rightarrow> py_error + string" where
  \<comment> \<open>\<^verbatim>\<open>APIToken.__repr__\<close>: the f-string reads \<^verbatim>\<open>self.user.username\<close>, then
      \<^verbatim>\<open>self.token[-4:]\<close>\<close>
  "APIToken_repr self =
     (case getattr (PAPIToken self) ''user'' of
        Inl err \<Rightarrow> Inl err
      | Inr user \<Rightarrow>
          (case getattr user ''username'' of
             Inl err \<Rightarrow> Inl err
           | Inr uname \<Rightarrow>
               Inr (''<APIToken user='' @ format_str uname @ '' token=************''
                    @ last4 (token self) @ ''>'')))"

text \<open>
  \<^verbatim>\<open>__json__\<close> builds a dict whose values are all strings; it is an association list in
  the order of the dict display. \<^verbatim>\<open>self.ABID\<close> is a property of the base class
  \<^verbatim>\<open>ABIDModel\<close>, which is not part of this module: \<^verbatim>\<open>str(self.ABID)\<close> is the parameter
  \<open>ABID\<close>, which may raise. The values are computed in the order of the display.
\<close>

definition APIToken_json ::
    "(APIToken \<Rightarrow> py_error + string) \<Rightarrow> datetime \<Rightarrow> APIToken \<Rightarrow> py_error + (string \<times> string) list" where
  "APIToken_json ABID now self =
     (case ABID self of
        Inl err \<Rightarrow> Inl err
      | Inr abid_str \<Rightarrow>
          (case expires_as_iso8601 now self of
             Inl err \<Rightarrow> Inl err
           | Inr expires_str \<Rightarrow>
               Inr [(''TYPE'', ''APIToken''),
                    (''id'', str_uuid (APIToken.id self)),
                    (''abid'', abid_str),
                    (''created_by_id'', str_int (pk (created_by self))),
                    (''token'', token self),
                    (''created'', isoformat (APIToken.created self)),
                    (''expires'', expires_str)]))"

section \<open>Creating and storing credentials\<close>

text \<open>
  The token field is declared
  \<^verbatim>\<open>CharField(max_length=32, default=generate_secret_token, unique=True)\<close>.
  The default is called when an instance is constructed without a token; a token passed
  to the constructor is stored as it is (\<^verbatim>\<open>max_length\<close> is an upper bound that form
  validation checks; neither the constructor nor \<^verbatim>\<open>save\<close> looks at it).
  \<open>APIToken_new\<close> is the row that \<^verbatim>\<open>APIToken(created_by=user, token=tok, expires=exp)\<close>
  becomes when it is first saved:
  \<open>new_id\<close> is the value of \<^verbatim>\<open>uuid.uuid4()\<close> and \<open>now\<close> the clock that \<^verbatim>\<open>auto_now_add\<close> reads.
\<close>

definition APIToken_new ::
    "entropy \<Rightarrow> uuid \<Rightarrow> User \<Rightarrow> string option \<Rightarrow> datetime option \<Rightarrow> datetime \<Rightarrow> APIToken" where
  "APIToken_new rnd new_id user tok exp now =
     \<lparr>APIToken.id = new_id, APIToken.uuid = None, APIToken.abid = None, created_by = user,
      token = (case tok of None \<Rightarrow> generate_secret_token rnd | Some t \<Rightarrow> t),
      APIToken.created = now, expires = exp\<rparr>"

text \<open>
  The table of credentials, with the constraints the field declarations put on it as
  the database enforces them on insert: \<^verbatim>\<open>id\<close> is the primary key, \<^verbatim>\<open>token\<close> is unique,
  \<^verbatim>\<open>uuid\<close> is unique among the rows where it is not null. A row that breaks one of them is
  refused with \<^verbatim>\<open>IntegrityError\<close>.
\<close>

definition insert_row :: "APIToken \<Rightarrow> APIToken list \<Rightarrow> py_error + APIToken list" where
  "insert_row row tbl =
     (if APIToken.id row \<in> set (map APIToken.id tbl) then Inl (IntegrityError ''id'')
      else if token row \<in> set (map token tbl) then Inl (IntegrityError ''token'')
      else if APIToken.uuid row \<noteq> None \<and> APIToken.uuid row \<in> set (map APIToken.uuid tbl)
        then Inl (IntegrityError ''uuid'')
      else Inr (tbl @ [row]))"

inductive reachable :: "APIToken list \<Rightarrow> bool" where
  empty: "reachable []"
| insert: "reachable tbl \<Longrightarrow> insert_row row tbl = Inr tbl' \<Longrightarrow> reachable tbl'"

section \<open>Reading an ISO 8601 string back\<close>

text \<open>
  The specification speaks of the instant an ISO 8601 string denotes and of an instant
  plus 100 calendar years. Both are defined here from the specification's words, to
  compare them with what the code computes. \<open>fromisoformat\<close> reads the strings of the
  form \<^verbatim>\<open>YYYY-MM-DDTHH:MM:SS[.ffffff]+00:00\<close>; \<open>add_years\<close> moves an instant to the
  same month, day and time of day \<open>k\<close> years later, where that date exists.
\<close>

definition digit_of :: "char \<Rightarrow> int option" where
  "digit_of c =
     (let k = (of_char c :: int) in if 48 \<le> k \<and> k \<le> 57 then Some (k - 48) else None)"

fun parse_digits :: "int \<Rightarrow> string \<Rightarrow> int option" where
  "parse_digits acc [] = Some acc"
| "parse_digits acc (c # cs) =
     (case digit_of c of None \<Rightarrow> None | Some d \<Rightarrow> parse_digits (10 * acc + d) cs)"

definition parse_nat :: "string \<Rightarrow> int option" where
  "parse_nat s = (if s = [] then None else parse_digits 0 s)"

definition from_fields :: "int \<Rightarrow> int \<Rightarrow> int \<Rightarrow> int \<Rightarrow> int \<Rightarrow> int \<Rightarrow> int \<Rightarrow> datetime option" where
  "from_fields y m d hh mm ss us =
     (if 1 \<le> y \<and> y \<le> 9999 \<and> 1 \<le> m \<and> m \<le> 12 \<and> 1 \<le> d
         \<and> d \<le> days_in_month y m \<and> hh < 24 \<and> mm < 60 \<and> ss < 60
      then Some ((ymd2ord y m d - 1) * US_PER_DAY
                 + hh * 3600000000 + mm * 60000000 + ss * 1000000 + us)
      else None)"

definition fromisoformat :: "string \<Rightarrow> datetime option" where
  "fromisoformat s =
     (let n = length s in
      if (n = 25 \<or> n = 32)
         \<and> s ! 4 = CHR ''-'' \<and> s ! 7 = CHR ''-'' \<and> s ! 10 = CHR ''T''
         \<and> s ! 13 = CHR '':'' \<and> s ! 16 = CHR '':''
         \<and> (n = 25 \<or> s ! 19 = CHR ''.'') \<and> drop (n - 6) s = ''+00:00''
      then
        (case (parse_nat (take 4 s), parse_nat (take 2 (drop 5 s)),
               parse_nat (take 2 (drop 8 s)), parse_nat (take 2 (drop 11 s)),
               parse_nat (take 2 (drop 14 s)), parse_nat (take 2 (drop 17 s)),
               (if n = 25 then Some 0 else parse_nat (take 6 (drop 20 s)))) of
           (Some y, Some m, Some d, Some hh, Some mm, Some ss, Some us) \<Rightarrow>
             from_fields y m d hh mm ss us
         | _ \<Rightarrow> None)
      else None)"

definition add_years :: "int \<Rightarrow> datetime \<Rightarrow> datetime option" where
  "add_years k t =
     (let (year, month, day) = ord2ymd (t div US_PER_DAY + 1)
      in if 1 \<le> year + k \<and> year + k \<le> 9999 \<and> day \<le> days_in_month (year + k) month
         then Some ((ymd2ord (year + k) month day - 1) * US_PER_DAY + t mod US_PER_DAY)
         else None)"

section \<open>Example values\<close>

definition example_user :: User where
  "example_user = \<lparr>pk = 42, username = ''admin''\<rparr>"

definition example_entropy :: entropy where
  "example_entropy i = of_nat (17 * i + 3)"

definition example_instant :: datetime where
  \<comment> \<open>2024-01-01T00:00:00+00:00\<close>
  "example_instant = 63839664000000000"

definition example_token :: APIToken where
  "example_token =
     APIToken_new example_entropy 1311768467463790320 example_user None None example_instant"

definition example_webhook :: OutboundWebhook where
  "example_webhook =
     \<lparr>OutboundWebhook.id = None, OutboundWebhook.uuid = 81985529216486895,
      OutboundWebhook.abid = None, name = ''notify'', signal = ''CREATE'',
      ref = ''core.models.Snapshot'', endpoint = ''https://example.com/hook'',
      OutboundWebhook.created = example_instant\<rparr>"

section \<open>The calendar functions invert each other\<close>

text \<open>
  \<open>ymd2ord\<close> is a left inverse of \<open>ord2ymd\<close>, and \<open>ord2ymd\<close> yields a date of the
  calendar. This is what makes an ISO 8601 rendering denote one instant.
\<close>

lemma ord2ymd_unfold:
  assumes "a = (n0 - 1) div 146097" "r1 = (n0 - 1) mod 146097"
    "b = r1 div 36524" "r2 = r1 mod 36524"
    "c = r2 div 1461" "r3 = r2 mod 1461"
    "e = r3 div 365" "r4 = r3 mod 365"
  shows "ord2ymd n0 =
     (if e = 4 \<or> b = 4 then (a * 400 + 1 + b * 100 + c * 4 + e - 1, 12, 31)
      else ymd_in_year (a * 400 + 1 + b * 100 + c * 4 + e) (e = 3 \<and> (c \<noteq> 24 \<or> b = 3)) r4)"
  unfolding ord2ymd_def ymd_in_year_def Let_def assms
  by (rule refl)

lemma ymd_in_year_correct:
  assumes "0 \<le> n" "n \<le> 364" "ymd_in_year y leap n = (y', m, d)"
  shows "y' = y \<and> 1 \<le> m \<and> m \<le> 12 \<and> 1 \<le> d
         \<and> d \<le> (if m = 2 \<and> leap then 29 else DAYS_IN_MONTH ! nat m)
         \<and> DAYS_BEFORE_MONTH ! nat m + (if m > 2 \<and> leap then 1 else 0) + d = n + 1"
proof -
  define k where "k = (n + 50) div 32"
  have "1 \<le> k" "k \<le> 12" using assms(1,2) unfolding k_def by simp_all
  then have "k \<in> {1, 2, 3, 4, 5, 6, 7, 8, 9, 10, 11, 12}" by simp arith
  moreover have kb: "32 * k \<le> n + 50" "n + 50 < 32 * k + 32"
    unfolding k_def by simp_all
  ultimately show ?thesis
    using assms unfolding ymd_in_year_def Let_def k_def [symmetric]
    by (elim insertE emptyE; cases leap;
        simp add: DAYS_BEFORE_MONTH_def DAYS_IN_MONTH_def split: if_splits)
qed


lemma days_before_year_decomp:
  assumes "0 \<le> b" "b \<le> 3" "0 \<le> c" "c \<le> 24" "0 \<le> e" "e \<le> 3"
  shows "days_before_year (a * 400 + 1 + b * 100 + c * 4 + e)
         = 146097 * a + 36524 * b + 1461 * c + 365 * e"
proof -
  define y where "y = a * 400 + b * 100 + c * 4 + e"
  have d4: "y div 4 = 100 * a + 25 * b + c"
    by (rule int_div_pos_eq [where r = e]) (use assms in \<open>simp_all add: y_def\<close>)
  have d100: "y div 100 = 4 * a + b"
    by (rule int_div_pos_eq [where r = "4 * c + e"]) (use assms in \<open>simp_all add: y_def\<close>)
  have d400: "y div 400 = a"
    by (rule int_div_pos_eq [where r = "100 * b + 4 * c + e"])
       (use assms in \<open>simp_all add: y_def\<close>)
  have "days_before_year (y + 1) = y * 365 + y div 4 - y div 100 + y div 400"
    by (simp add: days_before_year_def)
  also have "\<dots> = 146097 * a + 36524 * b + 1461 * c + 365 * e"
    unfolding d4 d100 d400 unfolding y_def by simp
  finally show ?thesis unfolding y_def by (simp add: add.commute add.left_commute)
qed

lemma is_leap_decomp:
  assumes "0 \<le> b" "b \<le> 3" "0 \<le> c" "c \<le> 24" "0 \<le> e" "e \<le> 3"
  shows "is_leap (a * 400 + 1 + b * 100 + c * 4 + e) = (e = 3 \<and> (c \<noteq> 24 \<or> b = 3))"
proof -
  define y where "y = a * 400 + 1 + b * 100 + c * 4 + e"
  consider (common) "e \<le> 2" | (fourth) "e = 3" "c \<le> 23"
    | (century) "e = 3" "c = 24" "b \<le> 2" | (cycle) "e = 3" "c = 24" "b = 3"
    using assms by linarith
  then have "is_leap y = (e = 3 \<and> (c \<noteq> 24 \<or> b = 3))"
  proof cases
    case common
    have "y mod 4 = e + 1"
      by (rule int_mod_pos_eq [where q = "100 * a + 25 * b + c"])
         (use assms common in \<open>simp_all add: y_def\<close>)
    with assms common show ?thesis by (simp add: is_leap_def)
  next
    case fourth
    have "y mod 4 = 0"
      by (rule int_mod_pos_eq [where q = "100 * a + 25 * b + c + 1"])
         (use fourth in \<open>simp_all add: y_def\<close>)
    moreover have "y mod 100 = 4 * c + 4"
      by (rule int_mod_pos_eq [where q = "4 * a + b"])
         (use assms fourth in \<open>simp_all add: y_def\<close>)
    ultimately show ?thesis using assms fourth by (simp add: is_leap_def)
  next
    case century
    have "y mod 4 = 0"
      by (rule int_mod_pos_eq [where q = "100 * a + 25 * b + c + 1"])
         (use century in \<open>simp_all add: y_def\<close>)
    moreover have "y mod 100 = 0"
      by (rule int_mod_pos_eq [where q = "4 * a + b + 1"])
         (use century in \<open>simp_all add: y_def\<close>)
    moreover have "y mod 400 = 100 * b + 100"
      by (rule int_mod_pos_eq [where q = a])
         (use assms century in \<open>simp_all add: y_def\<close>)
    ultimately show ?thesis using assms century by (simp add: is_leap_def)
  next
    case cycle
    have "y mod 4 = 0"
      by (rule int_mod_pos_eq [where q = "100 * a + 25 * b + c + 1"])
         (use cycle in \<open>simp_all add: y_def\<close>)
    moreover have "y mod 400 = 0"
      by (rule int_mod_pos_eq [where q = "a + 1"])
         (use cycle in \<open>simp_all add: y_def\<close>)
    ultimately show ?thesis using cycle by (simp add: is_leap_def)
  qed
  then show ?thesis unfolding y_def .
qed


lemma ord2ymd_correct:
  assumes "ord2ymd n0 = (y, m, d)"
  shows "1 \<le> m \<and> m \<le> 12 \<and> 1 \<le> d \<and> d \<le> days_in_month y m \<and> ymd2ord y m d = n0"
proof -
  define a where "a = (n0 - 1) div 146097"
  define r1 where "r1 = (n0 - 1) mod 146097"
  define b where "b = r1 div 36524"
  define r2 where "r2 = r1 mod 36524"
  define c where "c = r2 div 1461"
  define r3 where "r3 = r2 mod 1461"
  define e where "e = r3 div 365"
  define r4 where "r4 = r3 mod 365"
  have n0: "n0 = 146097 * a + r1 + 1" and r1: "0 \<le> r1" "r1 < 146097"
    unfolding a_def r1_def by simp_all
  have r1_eq: "r1 = 36524 * b + r2" and r2: "0 \<le> r2" "r2 < 36524"
    unfolding b_def r2_def by simp_all
  have r2_eq: "r2 = 1461 * c + r3" and r3: "0 \<le> r3" "r3 < 1461"
    unfolding c_def r3_def by simp_all
  have r3_eq: "r3 = 365 * e + r4" and r4: "0 \<le> r4" "r4 < 365"
    unfolding e_def r4_def by simp_all
  have b: "0 \<le> b" "b \<le> 4" using r1 r2 r1_eq by linarith+
  have c: "0 \<le> c" "c \<le> 24" using r2 r3 r2_eq by linarith+
  have e: "0 \<le> e" "e \<le> 4" using r3 r4 r3_eq by linarith+
  note unf = ord2ymd_unfold [OF a_def r1_def b_def r2_def c_def r3_def e_def r4_def]
  show ?thesis
  proof (cases "e = 4 \<or> b = 4")
    case True
    from True assms unf
    have ymd: "y = a * 400 + 1 + b * 100 + c * 4 + e - 1" "m = 12" "d = 31"
      by simp_all
    have "\<exists>b' c'. 0 \<le> b' \<and> b' \<le> 3 \<and> 0 \<le> c' \<and> c' \<le> 24 \<and> (c' \<noteq> 24 \<or> b' = 3)
            \<and> y = a * 400 + 1 + b' * 100 + c' * 4 + 3
            \<and> n0 = 146097 * a + 36524 * b' + 1461 * c' + 1461"
    proof (cases "b = 4")
      case True
      with r1 r2 r1_eq have "r2 = 0" by linarith
      with r2_eq r3 c have "c = 0" "r3 = 0" by linarith+
      with r3_eq r4 e have "e = 0" "r4 = 0" by linarith+
      have "0 \<le> (3::int) \<and> (3::int) \<le> 3 \<and> 0 \<le> (24::int) \<and> (24::int) \<le> 24
            \<and> ((24::int) \<noteq> 24 \<or> (3::int) = 3)
            \<and> y = a * 400 + 1 + 3 * 100 + 24 * 4 + 3
            \<and> n0 = 146097 * a + 36524 * 3 + 1461 * 24 + 1461"
        using ymd n0 r1_eq True \<open>r2 = 0\<close> \<open>c = 0\<close> \<open>e = 0\<close> by simp
      then show ?thesis by blast
    next
      case False
      with True have e4: "e = 4" by simp
      with r3_eq r3 r4 have "r4 = 0" "r3 = 1460" by linarith+
      with r2_eq r2 c have "c \<le> 23" by linarith
      from False b have "b \<le> 3" by linarith
      have "0 \<le> b \<and> b \<le> 3 \<and> 0 \<le> c \<and> c \<le> 24 \<and> (c \<noteq> 24 \<or> b = 3)
            \<and> y = a * 400 + 1 + b * 100 + c * 4 + 3
            \<and> n0 = 146097 * a + 36524 * b + 1461 * c + 1461"
        using ymd n0 r1_eq r2_eq \<open>r3 = 1460\<close> e4 b c \<open>b \<le> 3\<close> \<open>c \<le> 23\<close> by simp
      then show ?thesis by blast
    qed
    then obtain b' c' where p: "0 \<le> b'" "b' \<le> 3" "0 \<le> c'" "c' \<le> 24" "c' \<noteq> 24 \<or> b' = 3"
      and y: "y = a * 400 + 1 + b' * 100 + c' * 4 + 3"
      and n: "n0 = 146097 * a + 36524 * b' + 1461 * c' + 1461"
      by blast
    have dby: "days_before_year y = 146097 * a + 36524 * b' + 1461 * c' + 365 * 3"
      unfolding y by (rule days_before_year_decomp) (use p in simp_all)
    have leap: "is_leap y"
      unfolding y using is_leap_decomp [of b' c' 3 a] p by simp
    show ?thesis
      using dby leap n
      by (simp add: ymd ymd2ord_def days_in_month_def days_before_month_def
          DAYS_BEFORE_MONTH_def DAYS_IN_MONTH_def)
  next
    case False
    with b e have b3: "b \<le> 3" and e3: "e \<le> 3" by linarith+
    define Y where "Y = a * 400 + 1 + b * 100 + c * 4 + e"
    define leap where "leap = (e = 3 \<and> (c \<noteq> 24 \<or> b = 3))"
    from False assms unf have "ymd_in_year Y leap r4 = (y, m, d)"
      by (simp add: Y_def leap_def)
    from ymd_in_year_correct [OF r4(1) _ this] r4(2)
    have md: "y = Y" "1 \<le> m" "m \<le> 12" "1 \<le> d"
      "d \<le> (if m = 2 \<and> leap then 29 else DAYS_IN_MONTH ! nat m)"
      "DAYS_BEFORE_MONTH ! nat m + (if m > 2 \<and> leap then 1 else 0) + d = r4 + 1"
      by simp_all
    have dby: "days_before_year Y = 146097 * a + 36524 * b + 1461 * c + 365 * e"
      unfolding Y_def by (rule days_before_year_decomp) (use b c e b3 e3 in simp_all)
    have lp: "is_leap Y = leap"
      unfolding Y_def leap_def by (rule is_leap_decomp) (use b c e b3 e3 in simp_all)
    have "ymd2ord y m d = n0"
      using md(6) dby lp n0 r1_eq r2_eq r3_eq
      by (simp add: ymd2ord_def days_before_month_def md(1))
    moreover have "d \<le> days_in_month y m"
      using md(5) lp by (simp add: days_in_month_def md(1))
    ultimately show ?thesis using md by simp
  qed
qed


lemma days_before_year_step: "days_before_year y + 364 \<le> days_before_year (y + 1)"
proof -
  have 1: "(y - 1) div 4 \<le> y div 4" by (rule zdiv_mono1) simp_all
  have 2: "(y - 1) div 400 \<le> y div 400" by (rule zdiv_mono1) simp_all
  have "y div 100 \<le> (y - 1 + 100) div 100" by (rule zdiv_mono1) simp_all
  then have 3: "y div 100 \<le> (y - 1) div 100 + 1" by simp
  from 1 2 3 show ?thesis by (simp add: days_before_year_def Let_def)
qed

lemma days_before_year_mono:
  assumes "y \<le> y'"
  shows "days_before_year y \<le> days_before_year y'"
  using assms
proof (induction y' rule: int_ge_induct)
  case base
  show ?case by simp
next
  case (step i)
  with days_before_year_step [of i] show ?case by linarith
qed

lemma days_before_month_range:
  assumes "1 \<le> m" "m \<le> 12"
  shows "0 \<le> days_before_month y m \<and> days_before_month y m \<le> 335
         \<and> days_in_month y m \<le> 31"
proof -
  from assms have "m \<in> {1, 2, 3, 4, 5, 6, 7, 8, 9, 10, 11, 12}" by simp arith
  then show ?thesis
    by (elim insertE emptyE)
       (simp_all add: days_before_month_def days_in_month_def DAYS_BEFORE_MONTH_def
          DAYS_IN_MONTH_def)
qed

lemma ord2ymd_year_range:
  assumes "1 \<le> n0" "n0 \<le> MAXORDINAL" "ord2ymd n0 = (y, m, d)"
  shows "1 \<le> y \<and> y \<le> 9999"
proof -
  from ord2ymd_correct [OF assms(3)]
  have md: "1 \<le> m" "m \<le> 12" "1 \<le> d" "d \<le> days_in_month y m" and n: "ymd2ord y m d = n0"
    by simp_all
  from days_before_month_range [OF md(1,2), of y]
  have dbm: "0 \<le> days_before_month y m" "days_before_month y m \<le> 335"
    "days_in_month y m \<le> 31"
    by simp_all
  have lo: "days_before_year y < n0" and hi: "n0 \<le> days_before_year y + 366"
    using n md dbm by (simp_all add: ymd2ord_def)
  have "\<not> 10000 \<le> y"
  proof
    assume "10000 \<le> y"
    from days_before_year_mono [OF this] have "3652059 \<le> days_before_year y"
      by (simp add: days_before_year_def)
    with lo assms(2) show False by (simp add: MAXORDINAL_def)
  qed
  moreover have "\<not> y \<le> 0"
  proof
    assume "y \<le> 0"
    from days_before_year_mono [OF this] have "days_before_year y \<le> - 366"
      by (simp add: days_before_year_def)
    with hi assms(1) show False by simp
  qed
  ultimately show ?thesis by simp
qed

section \<open>Reading back what isoformat prints\<close>

lemma digit_of_digit_char:
  assumes "0 \<le> i" "i < 10"
  shows "digit_of (digit_char (nat i)) = Some i"
proof -
  from assms have "i \<in> {0, 1, 2, 3, 4, 5, 6, 7, 8, 9}" by simp arith
  then show ?thesis
    by (elim insertE emptyE) (simp_all add: digit_of_def digit_char_def)
qed

lemma parse_digits_snoc:
  "parse_digits acc (s @ [c]) =
     (case parse_digits acc s of
        None \<Rightarrow> None
      | Some v \<Rightarrow> (case digit_of c of None \<Rightarrow> None | Some d \<Rightarrow> Some (10 * v + d)))"
  by (induction s arbitrary: acc) (simp_all split: option.splits)

lemma parse_digits_dec_digits: "0 \<le> i \<Longrightarrow> parse_digits 0 (dec_digits i) = Some i"
proof (induction i rule: dec_digits.induct)
  case (1 i)
  show ?case
  proof (cases "i < 10")
    case True
    with 1(2) show ?thesis
      by (subst dec_digits.simps) (simp add: digit_of_digit_char)
  next
    case False
    with 1 have ih: "parse_digits 0 (dec_digits (i div 10)) = Some (i div 10)"
      by simp
    have "digit_of (digit_char (nat (i mod 10))) = Some (i mod 10)"
      by (rule digit_of_digit_char) simp_all
    with ih False show ?thesis
      by (subst dec_digits.simps) (simp add: parse_digits_snoc)
  qed
qed

lemma digit_of_zero: "digit_of (CHR ''0'') = Some 0"
  by (simp add: digit_of_def)

lemma parse_digits_zeros: "parse_digits 0 (replicate k (CHR ''0'') @ s) = parse_digits 0 s"
  by (induction k) (simp_all add: digit_of_zero)

lemma dec_digits_nonempty: "dec_digits i \<noteq> []"
  by (subst dec_digits.simps) simp

lemma length_dec_digits:
  "0 \<le> i \<Longrightarrow> i < 10 ^ w \<Longrightarrow> 0 < w \<Longrightarrow> length (dec_digits i) \<le> w"
proof (induction i arbitrary: w rule: dec_digits.induct)
  case (1 i)
  show ?case
  proof (cases "i < 10")
    case True
    with 1(4) show ?thesis by (subst dec_digits.simps) simp
  next
    case False
    from False 1(3) have "w \<noteq> 1" by auto
    with 1(4) obtain v where w: "w = Suc v" and v: "0 < v"
      by (cases w) simp_all
    have "i = 10 * (i div 10) + i mod 10" "0 \<le> i mod 10" by simp_all
    with 1(3) have "i div 10 < 10 ^ v" unfolding w by simp
    moreover from False have "0 \<le> i div 10" by simp
    ultimately have "length (dec_digits (i div 10)) \<le> v"
      using 1(1) False v by simp
    with False show ?thesis
      by (subst dec_digits.simps) (simp add: w)
  qed
qed

lemma fmt_d_roundtrip:
  assumes "0 \<le> i" "i < 10 ^ w" "0 < w"
  shows "length (fmt_d w i) = w" and "parse_nat (fmt_d w i) = Some i"
proof -
  from length_dec_digits [OF assms] show "length (fmt_d w i) = w"
    by (simp add: fmt_d_def zfill_def)
  show "parse_nat (fmt_d w i) = Some i"
    using assms(1)
    by (simp add: parse_nat_def fmt_d_def zfill_def parse_digits_zeros parse_digits_dec_digits
        dec_digits_nonempty)
qed

lemma fromisoformat_seconds:
  assumes "length Y = 4" "length M = 2" "length D = 2" "length h = 2" "length mi = 2"
    "length se = 2"
  shows "fromisoformat (Y @ ''-'' @ M @ ''-'' @ D @ ''T'' @ h @ '':'' @ mi @ '':'' @ se @ []
                        @ ''+00:00'')
         = (case (parse_nat Y, parse_nat M, parse_nat D, parse_nat h, parse_nat mi,
                  parse_nat se) of
              (Some y, Some m, Some d, Some hh, Some mm, Some ss) \<Rightarrow>
                from_fields y m d hh mm ss 0
            | _ \<Rightarrow> None)"
  using assms
  by (simp add: fromisoformat_def nth_append split: option.splits)

lemma fromisoformat_micros:
  assumes "length Y = 4" "length M = 2" "length D = 2" "length h = 2" "length mi = 2"
    "length se = 2" "length U = 6"
  shows "fromisoformat (Y @ ''-'' @ M @ ''-'' @ D @ ''T'' @ h @ '':'' @ mi @ '':'' @ se
                        @ (''.'' @ U) @ ''+00:00'')
         = (case (parse_nat Y, parse_nat M, parse_nat D, parse_nat h, parse_nat mi,
                  parse_nat se, parse_nat U) of
              (Some y, Some m, Some d, Some hh, Some mm, Some ss, Some us) \<Rightarrow>
                from_fields y m d hh mm ss us
            | _ \<Rightarrow> None)"
  using assms
  by (simp add: fromisoformat_def nth_append split: option.splits)

lemma time_of_day_fields:
  fixes r :: int
  assumes "0 \<le> r" "r < 86400000000"
  shows "0 \<le> r div 3600000000" "r div 3600000000 < 24"
    "0 \<le> r mod 3600000000 div 60000000" "r mod 3600000000 div 60000000 < 60"
    "0 \<le> r mod 60000000 div 1000000" "r mod 60000000 div 1000000 < 60"
    "0 \<le> r mod 1000000" "r mod 1000000 < 1000000"
    "r div 3600000000 * 3600000000 + r mod 3600000000 div 60000000 * 60000000
       + r mod 60000000 div 1000000 * 1000000 + r mod 1000000 = r"
proof -
  show "0 \<le> r div 3600000000" using assms(1) by simp
  show "r div 3600000000 < 24" using assms(2) by simp
  show "0 \<le> r mod 3600000000 div 60000000" by simp
  have "r mod 3600000000 < 3600000000" by simp
  then show "r mod 3600000000 div 60000000 < 60" by simp
  show "0 \<le> r mod 60000000 div 1000000" by simp
  have "r mod 60000000 < 60000000" by simp
  then show "r mod 60000000 div 1000000 < 60" by simp
  show "0 \<le> r mod 1000000" by simp
  show "r mod 1000000 < 1000000" by simp
  have a: "r mod 3600000000 mod 60000000 = r mod 60000000"
    by (rule mod_mod_cancel) simp
  have b: "r mod 60000000 mod 1000000 = r mod 1000000"
    by (rule mod_mod_cancel) simp
  have "r = r div 3600000000 * 3600000000 + r mod 3600000000" by simp
  also have "r mod 3600000000
             = r mod 3600000000 div 60000000 * 60000000 + r mod 3600000000 mod 60000000"
    by simp
  also have "r mod 3600000000 mod 60000000
             = r mod 60000000 div 1000000 * 1000000 + r mod 60000000 mod 1000000"
    unfolding a by simp
  finally show "r div 3600000000 * 3600000000 + r mod 3600000000 div 60000000 * 60000000
       + r mod 60000000 div 1000000 * 1000000 + r mod 1000000 = r"
    unfolding b by simp
qed

lemma fromisoformat_isoformat:
  assumes "datetime_in_range t"
  shows "fromisoformat (isoformat t) = Some t"
proof -
  define n0 where "n0 = t div US_PER_DAY + 1"
  define r where "r = t mod US_PER_DAY"
  obtain y m d where ymd: "ord2ymd n0 = (y, m, d)" by (cases "ord2ymd n0")
  from assms have t: "0 \<le> t" "t < 3652059 * 86400000000"
    by (simp_all add: datetime_in_range_def MAXORDINAL_def US_PER_DAY_def)
  have n0: "1 \<le> n0" "n0 \<le> MAXORDINAL"
    using t unfolding n0_def MAXORDINAL_def US_PER_DAY_def by simp_all
  have r: "0 \<le> r" "r < 86400000000" unfolding r_def US_PER_DAY_def by simp_all
  have t_eq: "t = (n0 - 1) * US_PER_DAY + r" unfolding n0_def r_def by simp
  from ord2ymd_correct [OF ymd] ord2ymd_year_range [OF n0 ymd]
  have cal: "1 \<le> y" "y \<le> 9999" "1 \<le> m" "m \<le> 12" "1 \<le> d" "d \<le> days_in_month y m"
    "ymd2ord y m d = n0"
    by simp_all
  from days_before_month_range [OF cal(3,4), of y] cal have d31: "d \<le> 31" by simp
  note tod = time_of_day_fields [OF r]
  define hh where "hh = r div 3600000000"
  define mm where "mm = r mod 3600000000 div 60000000"
  define ss where "ss = r mod 60000000 div 1000000"
  define us where "us = r mod 1000000"
  note f = tod [folded hh_def mm_def ss_def us_def]
  have Y: "length (fmt_d 4 y) = 4" "parse_nat (fmt_d 4 y) = Some y"
    using cal by (simp_all add: fmt_d_roundtrip)
  have M: "length (fmt_d 2 m) = 2" "parse_nat (fmt_d 2 m) = Some m"
    using cal by (simp_all add: fmt_d_roundtrip)
  have D: "length (fmt_d 2 d) = 2" "parse_nat (fmt_d 2 d) = Some d"
    using cal d31 by (simp_all add: fmt_d_roundtrip)
  have H: "length (fmt_d 2 hh) = 2" "parse_nat (fmt_d 2 hh) = Some hh"
    using f by (simp_all add: fmt_d_roundtrip)
  have Mi: "length (fmt_d 2 mm) = 2" "parse_nat (fmt_d 2 mm) = Some mm"
    using f by (simp_all add: fmt_d_roundtrip)
  have S: "length (fmt_d 2 ss) = 2" "parse_nat (fmt_d 2 ss) = Some ss"
    using f by (simp_all add: fmt_d_roundtrip)
  have U: "length (fmt_d 6 us) = 6" "parse_nat (fmt_d 6 us) = Some us"
    using f by (simp_all add: fmt_d_roundtrip)
  have iso: "isoformat t =
      fmt_d 4 y @ ''-'' @ fmt_d 2 m @ ''-'' @ fmt_d 2 d @ ''T''
         @ fmt_d 2 hh @ '':'' @ fmt_d 2 mm @ '':'' @ fmt_d 2 ss
         @ (if us \<noteq> 0 then ''.'' @ fmt_d 6 us else [])
         @ ''+00:00''"
    unfolding isoformat_def datetime_isoformat_def Let_def n0_def [symmetric] r_def [symmetric]
      ymd hh_def mm_def ss_def us_def
    by simp
  have fields: "from_fields y m d hh mm ss us = Some t"
    using cal f unfolding from_fields_def t_eq by simp
  show ?thesis
  proof (cases "us = 0")
    case True
    with iso have "isoformat t =
      fmt_d 4 y @ ''-'' @ fmt_d 2 m @ ''-'' @ fmt_d 2 d @ ''T''
         @ fmt_d 2 hh @ '':'' @ fmt_d 2 mm @ '':'' @ fmt_d 2 ss @ [] @ ''+00:00''"
      by simp
    then show ?thesis
      using fromisoformat_seconds [OF Y(1) M(1) D(1) H(1) Mi(1) S(1)] Y(2) M(2) D(2) H(2) Mi(2)
        S(2) fields True
      by simp
  next
    case False
    with iso have "isoformat t =
      fmt_d 4 y @ ''-'' @ fmt_d 2 m @ ''-'' @ fmt_d 2 d @ ''T''
         @ fmt_d 2 hh @ '':'' @ fmt_d 2 mm @ '':'' @ fmt_d 2 ss @ (''.'' @ fmt_d 6 us)
         @ ''+00:00''"
      by simp
    then show ?thesis
      using fromisoformat_micros [OF Y(1) M(1) D(1) H(1) Mi(1) S(1) U(1)] Y(2) M(2) D(2) H(2)
        Mi(2) S(2) U(2) fields
      by simp
  qed
qed

section \<open>Validity of a credential\<close>

text \<open>
  Claim C1. For every credential and every instant \<open>at\<close> passed as \<^verbatim>\<open>for_date\<close>,
  \<^verbatim>\<open>is_valid\<close> returns False if and only if the expiry is set and strictly earlier than
  \<open>at\<close>; in every other case, also with no expiry and however large \<open>at\<close> is, it returns
  True. The reading of the clock plays no part when \<^verbatim>\<open>for_date\<close> is given, and stands in
  for it when it is not.
\<close>

theorem is_valid_false_iff_expired:
  "(is_valid now self (Some at) = False) = (\<exists>e. expires self = Some e \<and> e < at)
   \<and> (is_valid now self (Some at) = True) = (\<not> (\<exists>e. expires self = Some e \<and> e < at))
   \<and> (expires self = None \<longrightarrow> is_valid now self (Some at) = True)
   \<and> is_valid now self None = is_valid now self (Some now)"
  by (cases "expires self") (simp_all add: is_valid_def)

theorem is_valid_false_iff_expired_witness:
  "is_valid 0 (example_token\<lparr>expires := Some example_instant\<rparr>)
       (Some (example_instant + US_PER_SECOND)) = False
   \<and> is_valid 0 (example_token\<lparr>expires := Some example_instant\<rparr>)
       (Some (example_instant - US_PER_SECOND)) = True
   \<and> is_valid 0 example_token (Some (example_instant + timedelta_days (365 * 50))) = True"
  using
    is_valid_false_iff_expired [of 0 "example_token\<lparr>expires := Some example_instant\<rparr>"
      "example_instant + US_PER_SECOND"]
    is_valid_false_iff_expired [of 0 "example_token\<lparr>expires := Some example_instant\<rparr>"
      "example_instant - US_PER_SECOND"]
    is_valid_false_iff_expired [of 0 example_token "example_instant + timedelta_days (365 * 50)"]
  by (simp add: example_token_def APIToken_new_def US_PER_SECOND_def)

text \<open>
  Claim C8. A credential whose expiry is exactly the queried instant is still valid:
  the comparison is strict.
\<close>

theorem is_valid_at_expiry:
  "expires self = Some at \<Longrightarrow> is_valid now self (Some at) = True"
  by (simp add: is_valid_def)

theorem is_valid_at_expiry_witness:
  "expires (example_token\<lparr>expires := Some example_instant\<rparr>) = Some example_instant
   \<and> is_valid 0 (example_token\<lparr>expires := Some example_instant\<rparr>) (Some example_instant)
       = True"
proof -
  have e: "expires (example_token\<lparr>expires := Some example_instant\<rparr>) = Some example_instant"
    by simp
  from is_valid_at_expiry [OF e, of 0] e show ?thesis by simp
qed

section \<open>The expiry shown for a credential\<close>

lemma expires_as_iso8601_set:
  "expires self = Some e \<Longrightarrow> expires_as_iso8601 now self = Inr (isoformat e)"
  by (simp add: expires_as_iso8601_def)

lemma expires_as_iso8601_unset:
  "expires self = None \<Longrightarrow> datetime_in_range (now + timedelta_days (365 * 100)) \<Longrightarrow>
   expires_as_iso8601 now self = Inr (isoformat (now + timedelta_days (365 * 100)))"
  by (simp add: expires_as_iso8601_def datetime_add_def)

lemma expires_as_iso8601_overflow:
  "expires self = None \<Longrightarrow> \<not> datetime_in_range (now + timedelta_days (365 * 100)) \<Longrightarrow>
   expires_as_iso8601 now self = Inl OverflowError"
  by (simp add: expires_as_iso8601_def datetime_add_def)

text \<open>
  Claim C2, as stated, fails: with no expiry set the code adds \<^verbatim>\<open>timedelta(days=365 * 100)\<close>,
  which is 36500 days, and 100 calendar years hold 24 or 25 leap days more. For the clock
  at 2024-01-01T00:00:00+00:00 the string returned denotes 2123-12-08, 24 days before
  2124-01-01, far more than one second away.
\<close>

theorem expires_display_not_100_calendar_years:
  "expires example_token = None
   \<and> expires_as_iso8601 example_instant example_token = Inr ''2123-12-08T00:00:00+00:00''
   \<and> fromisoformat ''2123-12-08T00:00:00+00:00'' = Some 66993264000000000
   \<and> add_years 100 example_instant = Some 66995337600000000
   \<and> \<not> \<bar>66993264000000000 - 66995337600000000\<bar> \<le> US_PER_SECOND"
  by code_simp

text \<open>
  Claim C2, amended. With an expiry set, \<^verbatim>\<open>expires_as_iso8601\<close> returns exactly the
  stored expiry rendered by \<^verbatim>\<open>isoformat\<close>. With no expiry set and the clock at \<open>now\<close>, it
  returns the rendering of exactly \<open>now\<close> plus 36500 days, a string that denotes that
  instant, as long as that instant is a datetime (within the year 9999); beyond it the
  addition raises \<^verbatim>\<open>OverflowError\<close>.
\<close>

theorem expires_display:
  "(expires self = Some e \<longrightarrow> expires_as_iso8601 now self = Inr (isoformat e))
   \<and> (expires self = None \<and> datetime_in_range (now + timedelta_days (365 * 100)) \<longrightarrow>
        expires_as_iso8601 now self = Inr (isoformat (now + 36500 * US_PER_DAY))
        \<and> fromisoformat (isoformat (now + 36500 * US_PER_DAY)) = Some (now + 36500 * US_PER_DAY))
   \<and> (expires self = None \<and> \<not> datetime_in_range (now + timedelta_days (365 * 100)) \<longrightarrow>
        expires_as_iso8601 now self = Inl OverflowError)"
proof (intro conjI impI)
  assume "expires self = Some e"
  then show "expires_as_iso8601 now self = Inr (isoformat e)"
    by (rule expires_as_iso8601_set)
next
  assume a: "expires self = None \<and> datetime_in_range (now + timedelta_days (365 * 100))"
  have d: "timedelta_days 36500 = 36500 * US_PER_DAY"
    by (simp add: timedelta_days_def)
  from a show "expires_as_iso8601 now self = Inr (isoformat (now + 36500 * US_PER_DAY))"
    using expires_as_iso8601_unset [of self now] by (simp add: d)
  from a show "fromisoformat (isoformat (now + 36500 * US_PER_DAY))
               = Some (now + 36500 * US_PER_DAY)"
    using fromisoformat_isoformat [of "now + 36500 * US_PER_DAY"] by (simp add: d)
next
  assume "expires self = None \<and> \<not> datetime_in_range (now + timedelta_days (365 * 100))"
  then show "expires_as_iso8601 now self = Inl OverflowError"
    using expires_as_iso8601_overflow [of self now] by simp
qed

theorem expires_display_witness:
  "expires_as_iso8601 example_instant example_token = Inr ''2123-12-08T00:00:00+00:00''
   \<and> fromisoformat ''2123-12-08T00:00:00+00:00'' = Some (example_instant + 36500 * US_PER_DAY)
   \<and> expires_as_iso8601 0 (example_token\<lparr>expires := Some example_instant\<rparr>)
       = Inr ''2024-01-01T00:00:00+00:00''
   \<and> expires_as_iso8601 (MAXORDINAL * US_PER_DAY - 1) example_token = Inl OverflowError"
proof -
  have n: "expires example_token = None"
    by (simp add: example_token_def APIToken_new_def)
  have r: "datetime_in_range (example_instant + timedelta_days (365 * 100))"
    by code_simp
  have o: "\<not> datetime_in_range (MAXORDINAL * US_PER_DAY - 1 + timedelta_days (365 * 100))"
    by code_simp
  have s: "expires (example_token\<lparr>expires := Some example_instant\<rparr>) = Some example_instant"
    by simp
  have i1: "isoformat (example_instant + 36500 * US_PER_DAY) = ''2123-12-08T00:00:00+00:00''"
    by code_simp
  have i2: "isoformat example_instant = ''2024-01-01T00:00:00+00:00''"
    by code_simp
  from expires_display [of example_token _ example_instant] n r i1
  have 1: "expires_as_iso8601 example_instant example_token = Inr ''2123-12-08T00:00:00+00:00''"
    and 2: "fromisoformat ''2123-12-08T00:00:00+00:00''
            = Some (example_instant + 36500 * US_PER_DAY)"
    by simp_all
  from expires_display [of "example_token\<lparr>expires := Some example_instant\<rparr>"
      example_instant 0] s i2
  have 3: "expires_as_iso8601 0 (example_token\<lparr>expires := Some example_instant\<rparr>)
           = Inr ''2024-01-01T00:00:00+00:00''"
    by simp
  from expires_display [of example_token _ "MAXORDINAL * US_PER_DAY - 1"] n o
  have 4: "expires_as_iso8601 (MAXORDINAL * US_PER_DAY - 1) example_token = Inl OverflowError"
    by simp
  from 1 2 3 4 show ?thesis by simp
qed

section \<open>Generated and stored tokens\<close>

lemma digit_char_hex: "d < 16 \<Longrightarrow> digit_char d \<in> hex_alphabet"
proof -
  assume "d < 16"
  then have "d \<in> set [0..<16]" by simp
  then show ?thesis
    unfolding digit_char_def hex_alphabet_def
    by (simp add: upt_rec) (elim disjE; simp)
qed

lemma length_hexlify: "length (hexlify bs) = 2 * length bs"
  by (induction bs) (simp_all add: hexlify_def)

lemma set_hexlify: "set (hexlify bs) \<subseteq> hex_alphabet"
proof (induction bs)
  case Nil
  show ?case by (simp add: hexlify_def)
next
  case (Cons b bs)
  have hi: "unat b div 16 < 16"
    using unsigned_less [of b, where ?'a = nat] by (simp add: less_mult_imp_div_less)
  have lo: "unat b mod 16 < 16" by simp
  from Cons digit_char_hex [OF hi] digit_char_hex [OF lo]
  show ?case by (simp add: hexlify_def)
qed

lemma length_generate_secret_token: "length (generate_secret_token rnd) = 32"
  by (simp add: generate_secret_token_def token_hex_def length_hexlify token_bytes_def)

lemma set_generate_secret_token: "set (generate_secret_token rnd) \<subseteq> hex_alphabet"
  by (simp add: generate_secret_token_def token_hex_def set_hexlify)

lemma insert_row_distinct:
  "distinct (map token tbl) \<Longrightarrow> insert_row row tbl = Inr tbl' \<Longrightarrow> distinct (map token tbl')"
  by (auto simp: insert_row_def split: if_splits)

lemma reachable_distinct: "reachable tbl \<Longrightarrow> distinct (map token tbl)"
  by (induction rule: reachable.induct) (auto dest: insert_row_distinct)

text \<open>
  Claim C3, as stated, fails in its second half: the length of a stored token is exactly
  32 only when the default generated it. A credential constructed with a token of its
  own is stored with that token, whatever its length up to the declared maximum.
\<close>

theorem stored_token_not_always_32_chars:
  "reachable [APIToken_new example_entropy 7 example_user (Some ''abc'') None example_instant]
   \<and> length (token (APIToken_new example_entropy 7 example_user (Some ''abc'') None
                      example_instant)) \<noteq> 32"
proof -
  have "insert_row (APIToken_new example_entropy 7 example_user (Some ''abc'') None example_instant) []
        = Inr [APIToken_new example_entropy 7 example_user (Some ''abc'') None example_instant]"
    by (simp add: insert_row_def)
  from reachable.insert [OF reachable.empty this] show ?thesis
    by (simp add: APIToken_new_def)
qed

text \<open>
  Claim C3, amended. Every string \<^verbatim>\<open>generate_secret_token\<close> returns has exactly 32
  characters, each a lower-case hexadecimal digit (16 random bytes rendered as hex). A
  credential created without a token of its own stores such a generated token, of
  length exactly 32; one created with a token of its own stores that token. In every
  table reached from the empty one by accepted inserts the tokens are pairwise distinct.
\<close>

theorem token_generated_and_unique:
  "length (generate_secret_token rnd) = 32
   \<and> set (generate_secret_token rnd) \<subseteq> hex_alphabet
   \<and> token (APIToken_new rnd new_id user None exp now) = generate_secret_token rnd
   \<and> length (token (APIToken_new rnd new_id user None exp now)) = 32
   \<and> token (APIToken_new rnd new_id user (Some tok) exp now) = tok
   \<and> (reachable tbl \<longrightarrow> distinct (map token tbl))"
  by (simp add: length_generate_secret_token set_generate_secret_token reachable_distinct
      APIToken_new_def)

theorem token_generated_and_unique_witness:
  "length (generate_secret_token example_entropy) = 32
   \<and> generate_secret_token example_entropy = ''031425364758697a8b9cadbecfe0f102''
   \<and> reachable [example_token,
        APIToken_new example_entropy 7 example_user (Some ''abc'') None example_instant]
   \<and> distinct (map token [example_token,
        APIToken_new example_entropy 7 example_user (Some ''abc'') None example_instant])"
proof -
  have 1: "insert_row example_token [] = Inr [example_token]"
    by (simp add: insert_row_def)
  have 2: "insert_row (APIToken_new example_entropy 7 example_user (Some ''abc'') None example_instant)
             [example_token]
           = Inr [example_token,
                  APIToken_new example_entropy 7 example_user (Some ''abc'') None example_instant]"
    by code_simp
  have 3: "generate_secret_token example_entropy = ''031425364758697a8b9cadbecfe0f102''"
    by code_simp
  have r: "reachable [example_token,
        APIToken_new example_entropy 7 example_user (Some ''abc'') None example_instant]"
    by (rule reachable.insert [OF reachable.insert [OF reachable.empty 1] 2])
  with 3 token_generated_and_unique [of example_entropy _ _ _ _ _
        "[example_token,
          APIToken_new example_entropy 7 example_user (Some ''abc'') None example_instant]"]
  show ?thesis by blast
qed

section \<open>The ABID declarations of the two models\<close>

lemmas attr_defs = eval_path_def getattr_def APIToken_attrs_def OutboundWebhook_attrs_def
  User_attrs_def nullable_def

text \<open>
  Claim C5. \<^verbatim>\<open>APIToken\<close> declares the prefix \<^verbatim>\<open>apt_\<close> and \<^verbatim>\<open>OutboundWebhook\<close> the prefix
  \<^verbatim>\<open>whk_\<close>; the prefix of each model is a constant of three to four characters.
\<close>

theorem abid_prefixes:
  "abid_prefix APIToken_class = ''apt_''
   \<and> abid_prefix OutboundWebhook_class = ''whk_''
   \<and> (\<forall>c. 3 \<le> length (abid_prefix c) \<and> length (abid_prefix c) \<le> 4)"
proof -
  have "3 \<le> length (abid_prefix c) \<and> length (abid_prefix c) \<le> 4" for c
    by (cases c) simp_all
  then show ?thesis by simp
qed

theorem abid_prefixes_witness:
  "length (abid_prefix APIToken_class) = 4 \<and> length (abid_prefix OutboundWebhook_class) = 4"
  using abid_prefixes by simp

text \<open>
  Claim C6. The credential's declaration names its token as the content/URI source and
  the id of the issuing user as the subtype source; the webhook's declaration names the
  endpoint URL as the content/URI source and the reference string \<^verbatim>\<open>ref\<close> as the subtype
  source; both name the creation timestamp as the timestamp source. Each specifier,
  evaluated on an instance, yields that attribute's value.
\<close>

theorem abid_sources_designate:
  "abid_uri_src APIToken_class = ''self.token''
   \<and> abid_subtype_src APIToken_class = ''self.created_by_id''
   \<and> abid_ts_src APIToken_class = ''self.created''
   \<and> eval_path (PAPIToken t) (abid_uri_src APIToken_class) = Inr (PStr (token t))
   \<and> eval_path (PAPIToken t) (abid_subtype_src APIToken_class) = Inr (PInt (pk (created_by t)))
   \<and> eval_path (PAPIToken t) (abid_ts_src APIToken_class) = Inr (PDatetime (APIToken.created t))
   \<and> abid_uri_src OutboundWebhook_class = ''self.endpoint''
   \<and> abid_subtype_src OutboundWebhook_class = ''self.ref''
   \<and> abid_ts_src OutboundWebhook_class = ''self.created''
   \<and> eval_path (POutboundWebhook w) (abid_uri_src OutboundWebhook_class) = Inr (PStr (endpoint w))
   \<and> eval_path (POutboundWebhook w) (abid_subtype_src OutboundWebhook_class) = Inr (PStr (ref w))
   \<and> eval_path (POutboundWebhook w) (abid_ts_src OutboundWebhook_class)
       = Inr (PDatetime (OutboundWebhook.created w))"
  by (simp add: attr_defs)

theorem abid_sources_designate_witness:
  "eval_path (PAPIToken example_token) (abid_uri_src APIToken_class)
     = Inr (PStr ''031425364758697a8b9cadbecfe0f102'')
   \<and> eval_path (PAPIToken example_token) (abid_subtype_src APIToken_class) = Inr (PInt 42)
   \<and> eval_path (POutboundWebhook example_webhook) (abid_uri_src OutboundWebhook_class)
     = Inr (PStr ''https://example.com/hook'')
   \<and> eval_path (POutboundWebhook example_webhook) (abid_subtype_src OutboundWebhook_class)
     = Inr (PStr ''core.models.Snapshot'')"
proof -
  have t: "token example_token = ''031425364758697a8b9cadbecfe0f102''"
    by code_simp
  have u: "pk (created_by example_token) = 42"
    by (simp add: example_token_def APIToken_new_def example_user_def)
  have e: "endpoint example_webhook = ''https://example.com/hook''"
    "ref example_webhook = ''core.models.Snapshot''"
    by (simp_all add: example_webhook_def)
  from abid_sources_designate [of example_token example_webhook] t u e
  show ?thesis by simp
qed

text \<open>
  Claim C4 does not hold of the code. For \<^verbatim>\<open>APIToken\<close> the random source \<^verbatim>\<open>self.id\<close> is the
  primary key and never null. For \<^verbatim>\<open>OutboundWebhook\<close> the same specifier reads the field
  \<^verbatim>\<open>id\<close>, which is nullable and has no default, while the primary key is \<^verbatim>\<open>uuid\<close>: on a
  webhook whose \<^verbatim>\<open>id\<close> is null the specifier evaluates to None, and the resolver of the
  specification fails with \<^verbatim>\<open>ResolutionError\<close>.
\<close>

theorem webhook_rand_src_is_nullable_id:
  "eval_path (POutboundWebhook w) (abid_rand_src OutboundWebhook_class)
     = Inr (nullable PUUID (OutboundWebhook.id w))
   \<and> getattr (POutboundWebhook w) ''pk'' = Inr (PUUID (OutboundWebhook.uuid w))
   \<and> eval_path (POutboundWebhook (w\<lparr>OutboundWebhook.id := None\<rparr>))
        (abid_rand_src OutboundWebhook_class) = Inr PNone
   \<and> resolve (POutboundWebhook (w\<lparr>OutboundWebhook.id := None\<rparr>))
        (abid_rand_src OutboundWebhook_class) = Inl (ResolutionError ''self.id'')
   \<and> eval_path (PAPIToken t) (abid_rand_src APIToken_class) = getattr (PAPIToken t) ''pk''
   \<and> resolve (PAPIToken t) (abid_rand_src APIToken_class) = Inr (PUUID (APIToken.id t))"
  by (simp add: attr_defs resolve_def)

theorem webhook_rand_src_is_nullable_id_witness:
  "eval_path (POutboundWebhook example_webhook) (abid_rand_src OutboundWebhook_class) = Inr PNone
   \<and> getattr (POutboundWebhook example_webhook) ''pk'' = Inr (PUUID 81985529216486895)
   \<and> resolve (POutboundWebhook example_webhook) (abid_rand_src OutboundWebhook_class)
       = Inl (ResolutionError ''self.id'')"
proof -
  have i: "OutboundWebhook.id example_webhook = None"
    "OutboundWebhook.uuid example_webhook = 81985529216486895"
    "example_webhook\<lparr>OutboundWebhook.id := None\<rparr> = example_webhook"
    by (simp_all add: example_webhook_def)
  from webhook_rand_src_is_nullable_id [of example_webhook] i
  show ?thesis by (simp add: nullable_def)
qed

section \<open>The external projection of a credential\<close>

lemma APIToken_json_returns:
  assumes "ABID self = Inr a" and "expires_as_iso8601 now self = Inr e"
  shows "APIToken_json ABID now self =
           Inr [(''TYPE'', ''APIToken''),
                (''id'', str_uuid (APIToken.id self)),
                (''abid'', a),
                (''created_by_id'', str_int (pk (created_by self))),
                (''token'', token self),
                (''created'', isoformat (APIToken.created self)),
                (''expires'', e)]"
  using assms by (simp add: APIToken_json_def)

text \<open>
  Claim C7. Whenever the base class yields the ABID and the expiry can be shown (an
  expiry is stored, or the clock plus 36500 days is still a datetime), \<^verbatim>\<open>__json__\<close>
  returns a mapping with the keys \<^verbatim>\<open>TYPE\<close>, \<^verbatim>\<open>id\<close>, \<^verbatim>\<open>abid\<close>, \<^verbatim>\<open>created_by_id\<close>, \<^verbatim>\<open>token\<close>,
  \<^verbatim>\<open>created\<close> and \<^verbatim>\<open>expires\<close>: the type tag, the record id, the ABID, the id of the
  creating user, the creation timestamp as ISO 8601 and the expiry as ISO 8601. The
  entry under \<^verbatim>\<open>expires\<close> is the stored expiry rendered by \<^verbatim>\<open>isoformat\<close> when one is stored,
  and the rendering of the clock plus 36500 days when none is.
\<close>

theorem json_projection_keys:
  assumes "ABID self = Inr a"
    and "expires self \<noteq> None \<or> datetime_in_range (now + timedelta_days (365 * 100))"
  shows "\<exists>d. APIToken_json ABID now self = Inr d
           \<and> map fst d = [''TYPE'', ''id'', ''abid'', ''created_by_id'', ''token'', ''created'',
                           ''expires'']
           \<and> map_of d ''TYPE'' = Some ''APIToken''
           \<and> map_of d ''id'' = Some (str_uuid (APIToken.id self))
           \<and> map_of d ''abid'' = Some a
           \<and> map_of d ''created_by_id'' = Some (str_int (pk (created_by self)))
           \<and> map_of d ''created'' = Some (isoformat (APIToken.created self))
           \<and> map_of d ''expires''
               = Some (isoformat (case expires self of
                                    Some x \<Rightarrow> x
                                  | None \<Rightarrow> now + 36500 * US_PER_DAY))"
proof (cases "expires self")
  case None
  with assms(2) have r: "datetime_in_range (now + timedelta_days (365 * 100))"
    by simp
  have "timedelta_days (365 * 100) = 36500 * US_PER_DAY"
    by (simp add: timedelta_days_def)
  with expires_as_iso8601_unset [OF None r]
  have e: "expires_as_iso8601 now self = Inr (isoformat (now + 36500 * US_PER_DAY))"
    by simp
  show ?thesis
    using APIToken_json_returns [of ABID self a now "isoformat (now + 36500 * US_PER_DAY)",
        OF assms(1) e] None
    by simp
next
  case (Some x)
  from expires_as_iso8601_set [OF Some]
  have e: "expires_as_iso8601 now self = Inr (isoformat x)" .
  show ?thesis
    using APIToken_json_returns [of ABID self a now "isoformat x", OF assms(1) e] Some
    by simp
qed

theorem json_projection_keys_witness:
  "(\<exists>d. APIToken_json (\<lambda>_. Inr ''apt_01hk'') example_instant example_token = Inr d
        \<and> map_of d ''created'' = Some ''2024-01-01T00:00:00+00:00''
        \<and> map_of d ''expires'' = Some ''2123-12-08T00:00:00+00:00''
        \<and> map_of d ''created_by_id'' = Some ''42''
        \<and> map_of d ''id'' = Some ''00000000-0000-0000-1234-56789abcdef0'')
   \<and> (\<exists>d. APIToken_json (\<lambda>_. Inr ''apt_01hk'') 0
              (example_token\<lparr>expires := Some (example_instant + US_PER_DAY)\<rparr>) = Inr d
        \<and> map_of d ''expires'' = Some ''2024-01-02T00:00:00+00:00'')"
proof -
  have r: "expires example_token \<noteq> None
           \<or> datetime_in_range (example_instant + timedelta_days (365 * 100))"
    by code_simp
  have n: "expires example_token = None"
    by (simp add: example_token_def APIToken_new_def)
  have c: "isoformat (APIToken.created example_token) = ''2024-01-01T00:00:00+00:00''"
    by code_simp
  have x: "isoformat (example_instant + 36500 * US_PER_DAY) = ''2123-12-08T00:00:00+00:00''"
    by code_simp
  have i: "str_uuid (APIToken.id example_token) = ''00000000-0000-0000-1234-56789abcdef0''"
    by code_simp
  have u: "str_int (pk (created_by example_token)) = ''42''"
    by code_simp
  have a: "(\<lambda>_. Inr ''apt_01hk'' :: py_error + string) example_token = Inr ''apt_01hk''"
    by simp
  from json_projection_keys [of "\<lambda>_. Inr ''apt_01hk''" example_token "''apt_01hk''"
      example_instant, OF a r]
  have 1: "\<exists>d. APIToken_json (\<lambda>_. Inr ''apt_01hk'') example_instant example_token = Inr d
        \<and> map_of d ''created'' = Some ''2024-01-01T00:00:00+00:00''
        \<and> map_of d ''expires'' = Some ''2123-12-08T00:00:00+00:00''
        \<and> map_of d ''created_by_id'' = Some ''42''
        \<and> map_of d ''id'' = Some ''00000000-0000-0000-1234-56789abcdef0''"
    using n c x i u by auto
  have s: "expires (example_token\<lparr>expires := Some (example_instant + US_PER_DAY)\<rparr>) \<noteq> None
           \<or> datetime_in_range (0 + timedelta_days (365 * 100))"
    by simp
  have a': "(\<lambda>_. Inr ''apt_01hk'' :: py_error + string)
              (example_token\<lparr>expires := Some (example_instant + US_PER_DAY)\<rparr>) = Inr ''apt_01hk''"
    by simp
  have y: "isoformat (example_instant + US_PER_DAY) = ''2024-01-02T00:00:00+00:00''"
    by code_simp
  from json_projection_keys [of "\<lambda>_. Inr ''apt_01hk''"
      "example_token\<lparr>expires := Some (example_instant + US_PER_DAY)\<rparr>" "''apt_01hk''" 0,
      OF a' s]
  have 2: "\<exists>d. APIToken_json (\<lambda>_. Inr ''apt_01hk'') 0
              (example_token\<lparr>expires := Some (example_instant + US_PER_DAY)\<rparr>) = Inr d
        \<and> map_of d ''expires'' = Some ''2024-01-02T00:00:00+00:00''"
    using y by auto
  from 1 2 show ?thesis by simp
qed

text \<open>
  Claim C9. Under the same conditions the projection holds the whole token, as stored,
  under the key \<^verbatim>\<open>token\<close>.
\<close>

theorem json_projection_exposes_token:
  assumes "ABID self = Inr a"
    and "expires self \<noteq> None \<or> datetime_in_range (now + timedelta_days (365 * 100))"
  shows "\<exists>d. APIToken_json ABID now self = Inr d \<and> map_of d ''token'' = Some (token self)"
proof -
  obtain e where e: "expires_as_iso8601 now self = Inr e"
    using assms(2) expires_as_iso8601_set expires_as_iso8601_unset
    by (cases "expires self") blast+
  show ?thesis
    using APIToken_json_returns [of ABID self a now e, OF assms(1) e] by simp
qed

theorem json_projection_exposes_token_witness:
  "\<exists>d. APIToken_json (\<lambda>_. Inr ''apt_01hk'') example_instant example_token = Inr d
        \<and> map_of d ''token'' = Some ''031425364758697a8b9cadbecfe0f102''"
proof -
  have r: "expires example_token \<noteq> None
           \<or> datetime_in_range (example_instant + timedelta_days (365 * 100))"
    by code_simp
  have t: "token example_token = ''031425364758697a8b9cadbecfe0f102''"
    by code_simp
  have a: "(\<lambda>_. Inr ''apt_01hk'' :: py_error + string) example_token = Inr ''apt_01hk''"
    by simp
  from json_projection_exposes_token [of "\<lambda>_. Inr ''apt_01hk''" example_token "''apt_01hk''" example_instant, OF a r]
  show ?thesis using t by simp
qed

section \<open>The debug representation of a credential\<close>

text \<open>
  Claim C10 does not hold of the code. \<^verbatim>\<open>__repr__\<close> reads \<^verbatim>\<open>self.user\<close>, and \<^verbatim>\<open>APIToken\<close> has
  no attribute of that name (the foreign key is \<^verbatim>\<open>created_by\<close>): on every credential the
  representation raises \<^verbatim>\<open>AttributeError\<close> before any string is built.
\<close>

theorem repr_raises:
  "APIToken_repr self = Inl (AttributeError ''APIToken'' ''user'')"
  by (simp add: APIToken_repr_def getattr_def APIToken_attrs_def)

theorem repr_raises_witness:
  "APIToken_repr example_token = Inl (AttributeError ''APIToken'' ''user'')"
  using repr_raises [of example_token] by simp

end
